theory Spec2Isabelle
  imports Main
begin

section \<open>Python values as they reach \<open>get_grouped_invoices\<close>\<close>

text \<open>
  The invoices are the decoded JSON answer of the invoicing service: nested Python
  values. A JSON object is the Python dict it decodes to, kept as an association list in
  which the first binding of a key is the dict's binding. Strings are Python strings whose
  code points lie below 256; numbers are Python ints (a JSON number that decodes to a
  float has no counterpart here).
\<close>

datatype json =
    JNull
  | JBool bool
  | JInt int
  | JStr string
  | JList "json list"
  | JObj "(string \<times> json) list"

text \<open>The exceptions the handler can meet. Only \<open>ValueError\<close> is ever caught.\<close>

datatype error = AttributeError | IndexError | KeyError | TypeError | ValueError

type_synonym 'a result = "error + 'a"

definition then_res :: "'a result \<Rightarrow> ('a \<Rightarrow> 'b result) \<Rightarrow> 'b result" where
  "then_res r f = (case r of Inl e \<Rightarrow> Inl e | Inr v \<Rightarrow> f v)"

text \<open>Python truth value: \<open>None\<close>, \<open>False\<close>, \<open>0\<close> and empty containers are falsy.\<close>

definition truthy :: "json \<Rightarrow> bool" where
  "truthy v = (case v of
       JNull \<Rightarrow> False
     | JBool b \<Rightarrow> b
     | JInt i \<Rightarrow> i \<noteq> 0
     | JStr s \<Rightarrow> s \<noteq> []
     | JList xs \<Rightarrow> xs \<noteq> []
     | JObj kvs \<Rightarrow> kvs \<noteq> [])"

text \<open>\<open>x.get(k, d)\<close>: only a dict has the method.\<close>

definition py_get :: "json \<Rightarrow> string \<Rightarrow> json \<Rightarrow> json result" where
  "py_get x k d = (case x of
       JObj kvs \<Rightarrow> (case map_of kvs k of None \<Rightarrow> Inr d | Some v \<Rightarrow> Inr v)
     | _ \<Rightarrow> Inl AttributeError)"

text \<open>\<open>x[0]\<close>. A dict decoded from JSON has string keys only, so \<open>0\<close> is never a key.\<close>

definition py_first :: "json \<Rightarrow> json result" where
  "py_first x = (case x of
       JList [] \<Rightarrow> Inl IndexError
     | JList (y # _) \<Rightarrow> Inr y
     | JStr [] \<Rightarrow> Inl IndexError
     | JStr (c # _) \<Rightarrow> Inr (JStr [c])
     | JObj _ \<Rightarrow> Inl KeyError
     | _ \<Rightarrow> Inl TypeError)"

text \<open>
  \<open>x[:10]\<close>. Slicing a dict raises (\<open>TypeError\<close> up to Python 3.11, \<open>KeyError\<close> from
  3.12 on; neither is caught by the handler).
\<close>

definition py_slice10 :: "json \<Rightarrow> json result" where
  "py_slice10 x = (case x of
       JStr s \<Rightarrow> Inr (JStr (take 10 s))
     | JList xs \<Rightarrow> Inr (JList (take 10 xs))
     | _ \<Rightarrow> Inl TypeError)"

text \<open>\<open>sep.join(x)\<close> iterates \<open>x\<close>: a list, the characters of a string, the keys of a dict.\<close>

fun join_strs :: "string \<Rightarrow> string list \<Rightarrow> string" where
  "join_strs sep [] = []"
| "join_strs sep [x] = x"
| "join_strs sep (x # y # r) = x @ sep @ join_strs sep (y # r)"

definition is_JStr :: "json \<Rightarrow> bool" where
  "is_JStr v = (case v of JStr _ \<Rightarrow> True | _ \<Rightarrow> False)"

definition un_JStr :: "json \<Rightarrow> string" where
  "un_JStr v = (case v of JStr s \<Rightarrow> s | _ \<Rightarrow> [])"

definition dict_keys :: "(string \<times> json) list \<Rightarrow> string list" where
  "dict_keys kvs = rev (remdups (rev (map fst kvs)))"

definition py_join :: "string \<Rightarrow> json \<Rightarrow> string result" where
  "py_join sep x = (case x of
       JList xs \<Rightarrow> if list_all is_JStr xs then Inr (join_strs sep (map un_JStr xs))
                   else Inl TypeError
     | JStr s \<Rightarrow> Inr (join_strs sep (map (\<lambda>c. [c]) s))
     | JObj kvs \<Rightarrow> Inr (join_strs sep (dict_keys kvs))
     | _ \<Rightarrow> Inl TypeError)"

section \<open>\<open>datetime\<close> and \<open>datetime.strptime(_, "%Y-%m-%d")\<close>\<close>

record datetime =
  year :: nat
  month :: nat
  day :: nat
  hour :: nat
  minute :: nat
  second :: nat
  microsecond :: nat

text \<open>Naive datetimes compare field by field, the year first.\<close>

fun lex_less :: "nat list \<Rightarrow> nat list \<Rightarrow> bool" where
  "lex_less (x # xs) (y # ys) = (x < y \<or> (x = y \<and> lex_less xs ys))"
| "lex_less _ _ = False"

definition dt_fields :: "datetime \<Rightarrow> nat list" where
  "dt_fields t = [year t, month t, day t, hour t, minute t, second t, microsecond t]"

definition dt_less :: "datetime \<Rightarrow> datetime \<Rightarrow> bool" where
  "dt_less a b = lex_less (dt_fields a) (dt_fields b)"

definition is_leap :: "nat \<Rightarrow> bool" where
  "is_leap y = (y mod 4 = 0 \<and> (y mod 100 \<noteq> 0 \<or> y mod 400 = 0))"

definition days_in_month :: "nat \<Rightarrow> nat \<Rightarrow> nat" where
  "days_in_month y m =
     (if m = 2 then (if is_leap y then 29 else 28)
      else if m \<in> {4, 6, 9, 11} then 30 else 31)"

text \<open>What the \<open>date\<close> constructor accepts: years 1 to 9999, a day the month has.\<close>

definition valid_date :: "nat \<Rightarrow> nat \<Rightarrow> nat \<Rightarrow> bool" where
  "valid_date y m d =
     (1 \<le> y \<and> y \<le> 9999 \<and> 1 \<le> m \<and> m \<le> 12 \<and> 1 \<le> d \<and> d \<le> days_in_month y m)"

definition is_digit :: "char \<Rightarrow> bool" where
  "is_digit c = (c \<in> set ''0123456789'')"

definition digit_val :: "char \<Rightarrow> nat" where
  "digit_val c = of_char c - 48"

text \<open>
  The format's regular expression, group by group. Each function lists the ways its group
  can match at the head of the text, in the order the alternatives are tried, each with
  the value read and the text left over:
  \<open>%Y\<close> is \<open>\d\d\d\d\<close>, \<open>%m\<close> is \<open>1[0-2]|0[1-9]|[1-9]\<close>,
  \<open>%d\<close> is \<open>3[0-1]|[1-2]\d|0[1-9]|[1-9]| [1-9]\<close>.
\<close>

definition re_Y :: "string \<Rightarrow> (nat \<times> string) list" where
  "re_Y s = (case s of
       a # b # c # d # r \<Rightarrow>
         if is_digit a \<and> is_digit b \<and> is_digit c \<and> is_digit d
         then [(1000 * digit_val a + 100 * digit_val b + 10 * digit_val c + digit_val d, r)]
         else []
     | _ \<Rightarrow> [])"

definition re_lit :: "char \<Rightarrow> string \<Rightarrow> string list" where
  "re_lit c s = (case s of a # r \<Rightarrow> if a = c then [r] else [] | [] \<Rightarrow> [])"

definition re_two :: "string \<Rightarrow> string \<Rightarrow> nat \<Rightarrow> string \<Rightarrow> (nat \<times> string) list" where
  "re_two firsts seconds tens s = (case s of
       a # b # r \<Rightarrow> if a \<in> set firsts \<and> b \<in> set seconds
                    then [(tens * digit_val a + digit_val b, r)] else []
     | _ \<Rightarrow> [])"

definition re_one :: "string \<Rightarrow> string \<Rightarrow> (nat \<times> string) list" where
  "re_one firsts s = (case s of
       a # r \<Rightarrow> if a \<in> set firsts then [(digit_val a, r)] else []
     | [] \<Rightarrow> [])"

definition re_m :: "string \<Rightarrow> (nat \<times> string) list" where
  "re_m s = re_two ''1'' ''012'' 10 s
          @ re_two ''0'' ''123456789'' 10 s
          @ re_one ''123456789'' s"

definition re_d :: "string \<Rightarrow> (nat \<times> string) list" where
  "re_d s = re_two ''3'' ''01'' 10 s
          @ re_two ''12'' ''0123456789'' 10 s
          @ re_two ''0'' ''123456789'' 10 s
          @ re_one ''123456789'' s
          @ re_two '' '' ''123456789'' 0 s"

definition re_ymd :: "string \<Rightarrow> ((nat \<times> nat \<times> nat) \<times> string) list" where
  "re_ymd s =
     [((y, m, d), r4).
        (y, r0) \<leftarrow> re_Y s, r1 \<leftarrow> re_lit (CHR ''-'') r0,
        (m, r2) \<leftarrow> re_m r1, r3 \<leftarrow> re_lit (CHR ''-'') r2,
        (d, r4) \<leftarrow> re_d r3]"

text \<open>
  \<open>strptime\<close> takes the first match of the expression at the start of the text, and
  raises \<open>ValueError\<close> when there is none, when text is left over after it, or when the
  numbers read are not a date.
\<close>

definition strptime_ymd :: "string \<Rightarrow> datetime result" where
  "strptime_ymd s = (case re_ymd s of
       [] \<Rightarrow> Inl ValueError
     | ((y, m, d), rest) # _ \<Rightarrow>
         if rest \<noteq> [] then Inl ValueError
         else if \<not> valid_date y m d then Inl ValueError
         else Inr \<lparr>year = y, month = m, day = d, hour = 0, minute = 0, second = 0,
                   microsecond = 0\<rparr>)"

definition py_strptime :: "json \<Rightarrow> datetime result" where
  "py_strptime x = (case x of JStr s \<Rightarrow> strptime_ymd s | _ \<Rightarrow> Inl TypeError)"

section \<open>The grouping loop of \<open>get_grouped_invoices\<close>\<close>

record invoice_info =
  status :: string
  id' :: json
  amount :: json
  description :: json
  download_link :: json
  create_date :: json
  due_date :: json

record client_group =
  client_name :: json
  client_email :: string
  client_phone :: json
  invoices :: "invoice_info list"

text \<open>
  \<open>clients\<close> is a Python dict: its entries in insertion order. Keys are compared as
  Python compares them, so \<open>True\<close> and \<open>1\<close> are one key; a list or a dict cannot be a key.
\<close>

type_synonym clients = "(json \<times> client_group) list"

definition key_norm :: "json \<Rightarrow> json" where
  "key_norm k = (case k of JBool b \<Rightarrow> JInt (if b then 1 else 0) | _ \<Rightarrow> k)"

definition key_eq :: "json \<Rightarrow> json \<Rightarrow> bool" where
  "key_eq a b = (key_norm a = key_norm b)"

definition py_hashable :: "json \<Rightarrow> bool" where
  "py_hashable k = (case k of JList _ \<Rightarrow> False | JObj _ \<Rightarrow> False | _ \<Rightarrow> True)"

definition dict_contains :: "clients \<Rightarrow> json \<Rightarrow> bool" where
  "dict_contains cl k = list_ex (\<lambda>e. key_eq (fst e) k) cl"

definition dict_lookup :: "clients \<Rightarrow> json \<Rightarrow> client_group option" where
  "dict_lookup cl k = map_option snd (find (\<lambda>e. key_eq (fst e) k) cl)"

text \<open>\<open>clients[k]["invoices"].append(info)\<close> for a key that is in the dict.\<close>

definition dict_append :: "clients \<Rightarrow> json \<Rightarrow> invoice_info \<Rightarrow> clients" where
  "dict_append cl k info =
     map (\<lambda>e. if key_eq (fst e) k
              then (fst e, (snd e)\<lparr>invoices := invoices (snd e) @ [info]\<rparr>)
              else e) cl"

text \<open>Line 92: \<open>inv.get("dueDate") or inv.get("items", [{}])[0].get("dueDate")\<close>.\<close>

definition first_item_due :: "json \<Rightarrow> json result" where
  "first_item_due invoice =
     then_res (py_get invoice ''items'' (JList [JObj []])) (\<lambda>items.
     then_res (py_first items) (\<lambda>item.
     py_get item ''dueDate'' JNull))"

definition due_date_str :: "json \<Rightarrow> json result" where
  "due_date_str invoice =
     then_res (py_get invoice ''dueDate'' JNull) (\<lambda>top.
     if truthy top then Inr top else first_item_due invoice)"

text \<open>Lines 103 to 111.\<close>

definition invoice_info_of :: "json \<Rightarrow> string \<Rightarrow> json \<Rightarrow> invoice_info result" where
  "invoice_info_of invoice st due =
     then_res (py_get invoice ''id'' JNull) (\<lambda>i.
     then_res (py_get invoice ''amount'' JNull) (\<lambda>a.
     then_res (py_get invoice ''description'' JNull) (\<lambda>de.
     then_res (py_get invoice ''url'' (JObj [])) (\<lambda>url.
     then_res (py_get url ''he'' JNull) (\<lambda>link.
     then_res (py_get invoice ''documentDate'' JNull) (\<lambda>doc.
     Inr \<lparr>status = st, id' = i, amount = a, description = de, download_link = link,
          create_date = doc, due_date = due\<rparr>))))))"

text \<open>Lines 113 to 121.\<close>

definition add_invoice ::
  "clients \<Rightarrow> json \<Rightarrow> json \<Rightarrow> string \<Rightarrow> json \<Rightarrow> invoice_info \<Rightarrow> clients result" where
  "add_invoice cl cid name email phone info =
     (if \<not> py_hashable cid then Inl TypeError
      else let cl' = (if \<not> dict_contains cl cid
                      then cl @ [(cid, \<lparr>client_name = name, client_email = email,
                                         client_phone = phone, invoices = []\<rparr>)]
                      else cl)
           in Inr (dict_append cl' cid info))"

text \<open>Lines 86 to 90: the client's fields, read before the due date is looked at.\<close>

definition client_fields :: "json \<Rightarrow> (json \<times> json \<times> string \<times> json) result" where
  "client_fields invoice =
     then_res (py_get invoice ''client'' (JObj [])) (\<lambda>client.
     then_res (py_get client ''id'' (JStr ''unknown'')) (\<lambda>cid.
     then_res (py_get client ''name'' (JStr ''Unknown'')) (\<lambda>name.
     then_res (py_get client ''emails'' (JList [])) (\<lambda>emails.
     then_res (py_join '', '' emails) (\<lambda>email.
     then_res (py_get client ''phone'' (JStr [])) (\<lambda>phone.
     Inr (cid, name, email, phone)))))))"

text \<open>
  Lines 92 to 111: the invoice's entry, or \<open>None\<close> where the loop says \<open>continue\<close>.
  Only \<open>ValueError\<close> is caught around the parse.
\<close>

definition classify :: "datetime \<Rightarrow> json \<Rightarrow> invoice_info option result" where
  "classify now invoice =
     then_res (due_date_str invoice) (\<lambda>due.
     if \<not> truthy due then Inr None
     else (case then_res (py_slice10 due) py_strptime of
         Inl ValueError \<Rightarrow> Inr None
       | Inl e \<Rightarrow> Inl e
       | Inr parsed \<Rightarrow>
           then_res (invoice_info_of invoice
                       (if dt_less parsed now then ''past_due'' else ''to_be_paid'') due)
             (\<lambda>info. Inr (Some info))))"

text \<open>One pass of the loop body, lines 86 to 121; \<open>continue\<close> leaves the dict as it was.\<close>

definition loop_body :: "datetime \<Rightarrow> clients \<Rightarrow> json \<Rightarrow> clients result" where
  "loop_body now cl invoice =
     then_res (client_fields invoice) (\<lambda>(cid, name, email, phone).
     then_res (classify now invoice) (\<lambda>c.
     case c of
       None \<Rightarrow> Inr cl
     | Some info \<Rightarrow> add_invoice cl cid name email phone info))"

fun group_loop :: "datetime \<Rightarrow> clients \<Rightarrow> json list \<Rightarrow> clients result" where
  "group_loop now cl [] = Inr cl"
| "group_loop now cl (invoice # rest) =
     then_res (loop_body now cl invoice) (\<lambda>cl'. group_loop now cl' rest)"

text \<open>
  The keys of the dict after the loop, told from the input alone: the client ids of the
  invoices the loop keeps, each at its first occurrence. Two ids are one key when Python
  finds them equal.
\<close>

function first_seen :: "json list \<Rightarrow> json list" where
  "first_seen [] = []"
| "first_seen (k # ks) = k # first_seen (filter (\<lambda>k'. \<not> key_eq k' k) ks)"
  by pat_completeness auto
termination
  by (relation "measure length") (auto simp: less_Suc_eq_le)

text \<open>The client id of every invoice that reaches line 113, in input order.\<close>

definition kept_client_ids :: "datetime \<Rightarrow> json list \<Rightarrow> json list" where
  "kept_client_ids now invs =
     concat (map (\<lambda>x. case (client_fields x, classify now x) of
                         (Inr (cid, _), Inr (Some _)) \<Rightarrow> [cid]
                       | _ \<Rightarrow> []) invs)"

section \<open>The table, lines 125 to 166\<close>

text \<open>\<open>max(...)\<close> of a non-empty sequence keeps the largest element seen so far.\<close>

definition max_invoices :: "clients \<Rightarrow> nat" where
  "max_invoices cl = (case map (\<lambda>e. length (invoices (snd e))) cl of
       [] \<Rightarrow> 0
     | n # ns \<Rightarrow> fold max ns n)"

text \<open>\<open>str(i)\<close> of a non-negative int, for the f-strings.\<close>

function str_nat :: "nat \<Rightarrow> string" where
  "str_nat n = (if n < 10 then [''0123456789'' ! n]
                else str_nat (n div 10) @ [''0123456789'' ! (n mod 10)])"
  by pat_completeness auto
termination
  by (relation "measure id") auto

declare str_nat.simps [simp del]

definition base_headers :: "string list" where
  "base_headers = [''client_id'', ''client_name'', ''client_email'', ''client_phone'']"

definition slot_headers :: "nat \<Rightarrow> string list" where
  "slot_headers i =
     [''invoice'' @ str_nat i @ ''_status'',
      ''invoice'' @ str_nat i @ ''_id'',
      ''invoice'' @ str_nat i @ ''_amount'',
      ''invoice'' @ str_nat i @ ''_description'',
      ''invoice'' @ str_nat i @ ''_download_link'',
      ''invoice'' @ str_nat i @ ''_create_date'',
      ''invoice'' @ str_nat i @ ''_due_date'']"

definition headers :: "clients \<Rightarrow> string list" where
  "headers cl =
     base_headers @ fold (\<lambda>i acc. acc @ slot_headers i) [1 ..< max_invoices cl + 1] []"

definition invoice_cells :: "invoice_info \<Rightarrow> json list" where
  "invoice_cells v =
     [JStr (status v), id' v, amount v, description v, download_link v, create_date v,
      due_date v]"

text \<open>
  One row, lines 148 to 165. \<open>[""] * n\<close> is empty for a negative \<open>n\<close>, as the
  truncated subtraction gives.
\<close>

definition row_of :: "nat \<Rightarrow> json \<times> client_group \<Rightarrow> json list" where
  "row_of n e =
     (let row = [fst e, client_name (snd e), JStr (client_email (snd e)),
                 client_phone (snd e)];
          row = fold (\<lambda>v r. r @ invoice_cells v) (invoices (snd e)) row
      in row @ replicate (n - length row) (JStr []))"

definition flatten :: "clients \<Rightarrow> string list \<times> json list list" where
  "flatten cl = (headers cl, map (row_of (length (headers cl))) cl)"

text \<open>
  The handler from the invoices and the clock reading on: the header and the rows it
  hands to the CSV writer, or the exception that ends the request.
\<close>

definition get_grouped_invoices ::
  "datetime \<Rightarrow> json list \<Rightarrow> (string list \<times> json list list) result" where
  "get_grouped_invoices now invs =
     then_res (group_loop now [] invs) (\<lambda>cl. Inr (flatten cl))"

section \<open>The spec's date format\<close>

text \<open>
  The spec's words for the text the parser is to accept: an ISO calendar date
  \<open>YYYY-MM-DD\<close>, that is four digits, a hyphen, two digits, a hyphen, two digits, naming
  a day that exists. This definition follows the spec, not the code; the code's parser is
  \<open>strptime_ymd\<close>.
\<close>

definition iso_calendar_date :: "string \<Rightarrow> bool" where
  "iso_calendar_date s = (case s of
       [y1, y2, y3, y4, h1, m1, m2, h2, d1, d2] \<Rightarrow>
         list_all is_digit [y1, y2, y3, y4, m1, m2, d1, d2]
         \<and> h1 = CHR ''-'' \<and> h2 = CHR ''-''
         \<and> valid_date (1000 * digit_val y1 + 100 * digit_val y2 + 10 * digit_val y3
                        + digit_val y4)
                       (10 * digit_val m1 + digit_val m2) (10 * digit_val d1 + digit_val d2)
     | _ \<Rightarrow> False)"

section \<open>Results, dict and parser facts\<close>

lemma then_res_Inr [simp]: "then_res (Inr v) f = f v"
  by (simp add: then_res_def)

lemma then_res_Inl [simp]: "then_res (Inl e) f = Inl e"
  by (simp add: then_res_def)

lemma then_res_eq_Inr: "then_res r f = Inr y \<longleftrightarrow> (\<exists>v. r = Inr v \<and> f v = Inr y)"
  by (cases r) simp_all

lemma key_eq_refl [simp]: "key_eq k k"
  by (simp add: key_eq_def)

lemma key_eq_sym: "key_eq a b \<longleftrightarrow> key_eq b a"
  by (auto simp: key_eq_def)

lemma key_eq_trans: "key_eq a b \<Longrightarrow> key_eq b c \<Longrightarrow> key_eq a c"
  by (simp add: key_eq_def)

lemma key_eq_cong: "key_eq a b \<Longrightarrow> key_eq c a = key_eq c b"
  by (simp add: key_eq_def)

lemma key_eq_JStr [simp]: "key_eq k (JStr s) \<longleftrightarrow> k = JStr s"
  by (cases k) (auto simp: key_eq_def key_norm_def)

lemma dict_contains_lookup: "dict_contains cl k \<longleftrightarrow> dict_lookup cl k \<noteq> None"
  by (induction cl) (auto simp: dict_contains_def dict_lookup_def)

lemma dict_lookup_Nil [simp]: "dict_lookup [] k = None"
  by (simp add: dict_lookup_def)

lemma dict_lookup_Cons:
  "dict_lookup (e # cl) k = (if key_eq (fst e) k then Some (snd e) else dict_lookup cl k)"
  by (simp add: dict_lookup_def)

lemma dict_lookup_snoc:
  "dict_lookup (cl @ [(k, g)]) k' =
     (case dict_lookup cl k' of Some x \<Rightarrow> Some x
      | None \<Rightarrow> if key_eq k k' then Some g else None)"
  by (induction cl) (auto simp: dict_lookup_Cons)

lemma dict_lookup_cong: "key_eq a b \<Longrightarrow> dict_lookup cl a = dict_lookup cl b"
  by (induction cl) (auto simp: dict_lookup_Cons key_eq_def)

lemma dict_lookup_append:
  "dict_lookup (dict_append cl k info) k' =
     (if key_eq k' k
      then map_option (\<lambda>g. g\<lparr>invoices := invoices g @ [info]\<rparr>) (dict_lookup cl k')
      else dict_lookup cl k')"
  by (induction cl) (auto simp: dict_lookup_Cons dict_append_def key_eq_def)

lemma keys_dict_append [simp]: "map fst (dict_append cl k info) = map fst cl"
  by (simp add: dict_append_def)

lemma add_invoice_lookup:
  assumes "add_invoice cl cid name email phone info = Inr cl'"
  shows "dict_lookup cl' k =
     (if key_eq k cid
      then Some (case dict_lookup cl cid of
                   None \<Rightarrow> \<lparr>client_name = name, client_email = email, client_phone = phone,
                             invoices = [info]\<rparr>
                 | Some g \<Rightarrow> g\<lparr>invoices := invoices g @ [info]\<rparr>)
      else dict_lookup cl k)"
  using assms dict_lookup_cong[of k cid cl]
  by (auto simp: add_invoice_def dict_lookup_append dict_lookup_snoc dict_contains_lookup
      key_eq_sym[of cid k]
      split: if_splits option.splits)

lemma add_invoice_keys:
  assumes "add_invoice cl cid name email phone info = Inr cl'"
  shows "map fst cl' = (if dict_contains cl cid then map fst cl else map fst cl @ [cid])"
  using assms by (auto simp: add_invoice_def split: if_splits)

lemma add_invoice_ok:
  "py_hashable cid \<Longrightarrow> \<exists>cl'. add_invoice cl cid name email phone info = Inr cl'"
  by (simp add: add_invoice_def Let_def)

lemma strptime_ymd_error: "strptime_ymd s = Inl e \<Longrightarrow> e = ValueError"
  by (auto simp: strptime_ymd_def split: list.splits prod.splits if_splits)

lemma strptime_ymd_Nil [simp]: "strptime_ymd [] = Inl ValueError"
  by (simp add: strptime_ymd_def re_ymd_def re_Y_def)

lemma strptime_ymd_midnight:
  "strptime_ymd s = Inr d \<Longrightarrow>
     hour d = 0 \<and> minute d = 0 \<and> second d = 0 \<and> microsecond d = 0
     \<and> valid_date (year d) (month d) (day d)"
  by (auto simp: strptime_ymd_def split: list.splits prod.splits if_splits)

lemma lex_less_irrefl [simp]: "\<not> lex_less xs xs"
  by (induction xs) auto

lemma dt_less_irrefl [simp]: "\<not> dt_less d d"
  by (simp add: dt_less_def)

lemma classify_string:
  assumes "due_date_str invoice = Inr (JStr s)"
  shows "classify now invoice =
     (case strptime_ymd (take 10 s) of
        Inl e \<Rightarrow> Inr None
      | Inr d \<Rightarrow>
          then_res (invoice_info_of invoice
                      (if dt_less d now then ''past_due'' else ''to_be_paid'') (JStr s))
            (\<lambda>info. Inr (Some info)))"
proof (cases "strptime_ymd (take 10 s)")
  case (Inl e)
  then have "e = ValueError" by (rule strptime_ymd_error)
  with Inl assms show ?thesis
    by (simp add: classify_def py_slice10_def py_strptime_def)
next
  case (Inr d)
  then have "s \<noteq> []" by auto
  with Inr assms show ?thesis
    by (simp add: classify_def py_slice10_def py_strptime_def truthy_def)
qed

lemma classify_falsy:
  "due_date_str invoice = Inr v \<Longrightarrow> \<not> truthy v \<Longrightarrow> classify now invoice = Inr None"
  by (simp add: classify_def)

lemma invoice_info_of_fields:
  "invoice_info_of invoice st due = Inr info \<Longrightarrow> status info = st \<and> due_date info = due"
  by (auto simp: invoice_info_of_def then_res_eq_Inr)

lemma invoice_info_of_ok:
  assumes "py_get invoice ''url'' (JObj []) = Inr (JObj u)"
  shows "\<exists>info. invoice_info_of invoice st due = Inr info"
proof -
  from assms obtain kvs where "invoice = JObj kvs"
    by (cases invoice) (simp_all add: py_get_def)
  with assms show ?thesis
    by (auto simp: invoice_info_of_def py_get_def split: option.splits)
qed

lemma loop_body_dropped:
  "client_fields invoice = Inr c \<Longrightarrow> classify now invoice = Inr None
     \<Longrightarrow> loop_body now cl invoice = Inr cl"
  by (cases c) (simp add: loop_body_def)

lemma loop_body_kept:
  "client_fields invoice = Inr (cid, name, email, phone)
     \<Longrightarrow> classify now invoice = Inr (Some info)
     \<Longrightarrow> loop_body now cl invoice = add_invoice cl cid name email phone info"
  by (simp add: loop_body_def)

lemma group_loop_append:
  "group_loop now cl (xs @ ys) = then_res (group_loop now cl xs) (\<lambda>cl'. group_loop now cl' ys)"
  by (induction xs arbitrary: cl) (auto simp: then_res_def split: sum.splits)

lemma group_loop_skip:
  assumes "\<And>c. loop_body now c x = Inr c"
  shows "group_loop now cl (pre @ x # post) = group_loop now cl (pre @ post)"
  by (simp add: group_loop_append assms)

section \<open>Classification\<close>

text \<open>
  C1. An invoice with no top-level \<open>dueDate\<close> and an empty \<open>items\<close> list is not
  dropped: \<open>[][0]\<close> raises \<open>IndexError\<close>, which nothing catches, so the whole request
  ends with the exception, whatever invoices follow. (The other two cases of the claim,
  no \<open>items\<close> at all and a first item without \<open>dueDate\<close>, are dropped as said:
  \<open>no_due_date_dropped\<close> below.)
\<close>

theorem empty_items_list_raises:
  "get_grouped_invoices now (JObj [(''id'', JStr ''i1''), (''items'', JList [])] # rest)
     = Inl IndexError"
  by (simp add: get_grouped_invoices_def loop_body_def client_fields_def classify_def
      due_date_str_def first_item_due_def py_get_def py_join_def py_first_def truthy_def)

lemma no_due_date_dropped:
  assumes "invoice = JObj kvs" and "client_fields invoice = Inr c"
    and "map_of kvs ''dueDate'' = None"
    and "map_of kvs ''items'' = None
         \<or> (\<exists>item others. map_of kvs ''items'' = Some (JList (JObj item # others))
               \<and> map_of item ''dueDate'' = None)"
  shows "loop_body now cl invoice = Inr cl"
proof -
  have "due_date_str invoice = Inr JNull"
    using assms(1,3,4)
    by (auto simp: due_date_str_def first_item_due_def py_get_def py_first_def truthy_def)
  then have "classify now invoice = Inr None"
    by (rule classify_falsy) (simp add: truthy_def)
  with assms(2) show ?thesis by (rule loop_body_dropped)
qed

text \<open>
  C10. A top-level \<open>dueDate\<close> that is the empty string is passed over by \<open>or\<close>: the due
  date is then whatever the first item's \<open>dueDate\<close> is (\<open>None\<close> if it has none), and
  when that too is the empty string the invoice is dropped and the dict is left as it was.
\<close>

theorem empty_due_date_falls_through:
  assumes "invoice = JObj kvs"
    and "map_of kvs ''dueDate'' = Some (JStr [])"
    and "map_of kvs ''items'' = Some (JList (JObj item # others))"
  shows "due_date_str invoice = first_item_due invoice
       \<and> due_date_str invoice = Inr (case map_of item ''dueDate'' of None \<Rightarrow> JNull | Some v \<Rightarrow> v)
       \<and> (map_of item ''dueDate'' = Some (JStr []) \<longrightarrow> classify now invoice = Inr None
            \<and> (\<forall>c cl. client_fields invoice = Inr c \<longrightarrow> loop_body now cl invoice = Inr cl))"
proof -
  have fall: "due_date_str invoice = first_item_due invoice"
    using assms(1,2) by (simp add: due_date_str_def py_get_def truthy_def)
  have item: "first_item_due invoice
      = Inr (case map_of item ''dueDate'' of None \<Rightarrow> JNull | Some v \<Rightarrow> v)"
    using assms(1,3)
    by (simp add: first_item_due_def py_get_def py_first_def split: option.splits)
  have drop: "classify now invoice = Inr None" if "map_of item ''dueDate'' = Some (JStr [])"
    using fall item that by (intro classify_falsy[of _ "JStr []"]) (simp_all add: truthy_def)
  show ?thesis
    using fall item drop loop_body_dropped by auto
qed

theorem empty_due_date_falls_through_witness:
  "due_date_str (JObj [(''dueDate'', JStr []),
                       (''items'', JList [JObj [(''dueDate'', JStr ''2030-05-01'')]])])
     = Inr (JStr ''2030-05-01'')
   \<and> group_loop \<lparr>year = 2025, month = 1, day = 1, hour = 0, minute = 0, second = 0,
                  microsecond = 0\<rparr> []
        [JObj [(''dueDate'', JStr []), (''items'', JList [JObj [(''dueDate'', JStr [])]])]]
     = Inr []"
proof -
  have top: "map_of [(''dueDate'', JStr []), (''items'', JList [JObj [(''dueDate'', v)]])]
      ''dueDate'' = Some (JStr [])" for v
    by simp
  have items: "map_of [(''dueDate'', JStr []), (''items'', JList [JObj [(''dueDate'', v)]])]
      ''items'' = Some (JList (JObj [(''dueDate'', v)] # []))" for v
    by simp
  have fields: "client_fields (JObj [(''dueDate'', JStr []),
      (''items'', JList [JObj [(''dueDate'', JStr [])]])])
      = Inr (JStr ''unknown'', JStr ''Unknown'', [], JStr [])"
    by (simp add: client_fields_def py_get_def py_join_def)
  from empty_due_date_falls_through[OF refl top items, of "JStr ''2030-05-01''"]
  have a: "due_date_str (JObj [(''dueDate'', JStr []),
                       (''items'', JList [JObj [(''dueDate'', JStr ''2030-05-01'')]])])
     = Inr (JStr ''2030-05-01'')"
    by auto
  from empty_due_date_falls_through[OF refl top items, of "JStr []"
      "\<lparr>year = 2025, month = 1, day = 1, hour = 0, minute = 0, second = 0,
        microsecond = 0\<rparr>"] fields
  have "loop_body \<lparr>year = 2025, month = 1, day = 1, hour = 0, minute = 0, second = 0,
                  microsecond = 0\<rparr> []
        (JObj [(''dueDate'', JStr []), (''items'', JList [JObj [(''dueDate'', JStr [])]])])
     = Inr []"
    by auto
  then have b: "group_loop \<lparr>year = 2025, month = 1, day = 1, hour = 0, minute = 0,
                  second = 0, microsecond = 0\<rparr> []
        [JObj [(''dueDate'', JStr []), (''items'', JList [JObj [(''dueDate'', JStr [])]])]]
     = Inr []"
    by simp
  from a b show ?thesis by (rule conjI)
qed

text \<open>
  C2. An invoice whose due date parses to \<open>d\<close> is given status \<open>past_due\<close> when
  \<open>d < now\<close> and \<open>to_be_paid\<close> otherwise; when \<open>d\<close> and \<open>now\<close> are the same instant,
  to the microsecond, the status is \<open>to_be_paid\<close>.
\<close>

theorem status_is_strict_comparison:
  assumes "due_date_str invoice = Inr (JStr s)"
    and "strptime_ymd (take 10 s) = Inr d"
    and "py_get invoice ''url'' (JObj []) = Inr (JObj u)"
  shows "\<exists>info. classify now invoice = Inr (Some info)
           \<and> (dt_less d now \<longrightarrow> status info = ''past_due'')
           \<and> (\<not> dt_less d now \<longrightarrow> status info = ''to_be_paid'')
           \<and> (d = now \<longrightarrow> status info = ''to_be_paid'')"
proof -
  obtain info where info: "invoice_info_of invoice
      (if dt_less d now then ''past_due'' else ''to_be_paid'') (JStr s) = Inr info"
    using invoice_info_of_ok[OF assms(3)] by blast
  have "classify now invoice = Inr (Some info)"
    using classify_string[OF assms(1), of now] assms(2) info by simp
  moreover have "status info = (if dt_less d now then ''past_due'' else ''to_be_paid'')"
    using invoice_info_of_fields[OF info] by simp
  ultimately show ?thesis by auto
qed

theorem status_is_strict_comparison_witness:
  "(\<exists>info. classify \<lparr>year = 2025, month = 1, day = 1, hour = 0, minute = 0, second = 0,
                       microsecond = 0\<rparr>
             (JObj [(''dueDate'', JStr ''2024-12-31'')]) = Inr (Some info)
          \<and> status info = ''past_due'')
   \<and> (\<exists>info. classify \<lparr>year = 2025, month = 1, day = 1, hour = 0, minute = 0, second = 0,
                       microsecond = 0\<rparr>
             (JObj [(''dueDate'', JStr ''2025-01-01'')]) = Inr (Some info)
          \<and> status info = ''to_be_paid'')"
proof -
  have due: "due_date_str (JObj [(''dueDate'', JStr s)]) = Inr (JStr s)" if "s \<noteq> []" for s
    using that by (simp add: due_date_str_def py_get_def truthy_def)
  have url: "py_get (JObj [(''dueDate'', JStr s)]) ''url'' (JObj []) = Inr (JObj [])" for s
    by (simp add: py_get_def)
  have p1: "strptime_ymd (take 10 ''2024-12-31'')
      = Inr \<lparr>year = 2024, month = 12, day = 31, hour = 0, minute = 0, second = 0,
             microsecond = 0\<rparr>"
    by code_simp
  have p2: "strptime_ymd (take 10 ''2025-01-01'')
      = Inr \<lparr>year = 2025, month = 1, day = 1, hour = 0, minute = 0, second = 0,
             microsecond = 0\<rparr>"
    by code_simp
  have before: "dt_less \<lparr>year = 2024, month = 12, day = 31, hour = 0, minute = 0, second = 0,
             microsecond = 0\<rparr> \<lparr>year = 2025, month = 1, day = 1, hour = 0, minute = 0,
             second = 0, microsecond = 0\<rparr>"
    by (simp add: dt_less_def dt_fields_def)
  from status_is_strict_comparison[OF due p1 url,
      of "\<lparr>year = 2025, month = 1, day = 1, hour = 0, minute = 0, second = 0,
           microsecond = 0\<rparr>"] before
  have a: "\<exists>info. classify \<lparr>year = 2025, month = 1, day = 1, hour = 0, minute = 0,
                       second = 0, microsecond = 0\<rparr>
             (JObj [(''dueDate'', JStr ''2024-12-31'')]) = Inr (Some info)
          \<and> status info = ''past_due''"
    by auto
  from status_is_strict_comparison[OF due p2 url,
      of "\<lparr>year = 2025, month = 1, day = 1, hour = 0, minute = 0, second = 0,
           microsecond = 0\<rparr>"]
  have b: "\<exists>info. classify \<lparr>year = 2025, month = 1, day = 1, hour = 0, minute = 0,
                       second = 0, microsecond = 0\<rparr>
             (JObj [(''dueDate'', JStr ''2025-01-01'')]) = Inr (Some info)
          \<and> status info = ''to_be_paid''"
    by auto
  from a b show ?thesis by (rule conjI)
qed

lemma is_digit_cases:
  "is_digit c \<longleftrightarrow> c = CHR ''0'' \<or> c = CHR ''1'' \<or> c = CHR ''2'' \<or> c = CHR ''3''
     \<or> c = CHR ''4'' \<or> c = CHR ''5'' \<or> c = CHR ''6'' \<or> c = CHR ''7'' \<or> c = CHR ''8''
     \<or> c = CHR ''9''"
  by (auto simp: is_digit_def)

lemma re_m_two_digits:
  assumes "is_digit a" "is_digit b" "1 \<le> 10 * digit_val a + digit_val b"
    "10 * digit_val a + digit_val b \<le> 12"
  shows "concat (map (\<lambda>(m, r2). concat (map (F m) (re_lit (CHR ''-'') r2)))
                  (re_m (a # b # CHR ''-'' # r)))
     = F (10 * digit_val a + digit_val b) r"
  using assms unfolding is_digit_cases
  by (elim disjE) (simp_all add: re_m_def re_two_def re_one_def re_lit_def digit_val_def)

lemma re_d_two_digits:
  assumes "is_digit a" "is_digit b" "1 \<le> 10 * digit_val a + digit_val b"
    "10 * digit_val a + digit_val b \<le> 31"
  shows "\<exists>rest. re_d [a, b] = (10 * digit_val a + digit_val b, []) # rest"
  using assms unfolding is_digit_cases
  by (elim disjE) (simp_all add: re_d_def re_two_def re_one_def digit_val_def)

lemma days_in_month_le: "days_in_month y m \<le> 31"
  by (simp add: days_in_month_def)

lemma iso_calendar_date_accepted:
  assumes "iso_calendar_date s"
  shows "\<exists>d. strptime_ymd s = Inr d"
proof -
  from assms obtain y1 y2 y3 y4 m1 m2 d1 d2 where
    s: "s = [y1, y2, y3, y4, CHR ''-'', m1, m2, CHR ''-'', d1, d2]"
    and dig: "is_digit y1" "is_digit y2" "is_digit y3" "is_digit y4"
             "is_digit m1" "is_digit m2" "is_digit d1" "is_digit d2"
    and valid: "valid_date (1000 * digit_val y1 + 100 * digit_val y2 + 10 * digit_val y3
                        + digit_val y4)
                       (10 * digit_val m1 + digit_val m2) (10 * digit_val d1 + digit_val d2)"
    by (auto simp: iso_calendar_date_def split: list.splits)
  have mm: "1 \<le> 10 * digit_val m1 + digit_val m2" "10 * digit_val m1 + digit_val m2 \<le> 12"
    using valid by (simp_all add: valid_date_def)
  have "10 * digit_val d1 + digit_val d2 \<le> 31"
    using valid days_in_month_le[of _ "10 * digit_val m1 + digit_val m2"]
    by (auto simp: valid_date_def intro: order_trans)
  then obtain rest where d: "re_d [d1, d2] = (10 * digit_val d1 + digit_val d2, []) # rest"
    using re_d_two_digits[of d1 d2] dig valid by (auto simp: valid_date_def)
  have "\<exists>rest'. re_ymd s = ((1000 * digit_val y1 + 100 * digit_val y2 + 10 * digit_val y3
        + digit_val y4, 10 * digit_val m1 + digit_val m2, 10 * digit_val d1 + digit_val d2),
        []) # rest'"
    unfolding re_ymd_def s
    by (simp add: re_Y_def dig re_lit_def[of _ "CHR ''-'' # _"]
        re_m_two_digits[OF dig(5,6) mm] d)
  then show ?thesis
    using valid by (auto simp: strptime_ymd_def)
qed

lemma get_grouped_invoices_skip:
  assumes "\<And>c. loop_body now c x = Inr c"
  shows "get_grouped_invoices now (pre @ x # post) = get_grouped_invoices now (pre @ post)"
  by (simp add: get_grouped_invoices_def group_loop_skip[of now x, OF assms])

text \<open>
  C3, as the spec words it, fails: the first ten characters of \<open>2000-1-1\<close> are no
  \<open>YYYY-MM-DD\<close> date, yet \<open>strptime\<close> reads them as 1 January 2000 and the invoice is
  kept.
\<close>

theorem one_digit_month_retained_counterexample:
  "\<not> iso_calendar_date (take 10 ''2000-1-1'')
   \<and> due_date_str (JObj [(''dueDate'', JStr ''2000-1-1'')]) = Inr (JStr ''2000-1-1'')
   \<and> group_loop \<lparr>year = 2025, month = 1, day = 1, hour = 0, minute = 0, second = 0,
                  microsecond = 0\<rparr> [] [JObj [(''dueDate'', JStr ''2000-1-1'')]]
     = Inr [(JStr ''unknown'',
             \<lparr>client_name = JStr ''Unknown'', client_email = [], client_phone = JStr [],
              invoices = [\<lparr>status = ''past_due'', id' = JNull, amount = JNull,
                           description = JNull, download_link = JNull, create_date = JNull,
                           due_date = JStr ''2000-1-1''\<rparr>]\<rparr>)]"
proof -
  have iso: "\<not> iso_calendar_date (take 10 ''2000-1-1'')"
    by (simp add: iso_calendar_date_def)
  have due: "due_date_str (JObj [(''dueDate'', JStr ''2000-1-1'')]) = Inr (JStr ''2000-1-1'')"
    by (simp add: due_date_str_def py_get_def truthy_def)
  have parse: "strptime_ymd ''2000-1-1''
      = Inr \<lparr>year = 2000, month = 1, day = 1, hour = 0, minute = 0, second = 0,
             microsecond = 0\<rparr>"
    by code_simp
  have loop: "group_loop \<lparr>year = 2025, month = 1, day = 1, hour = 0, minute = 0, second = 0,
                  microsecond = 0\<rparr> [] [JObj [(''dueDate'', JStr ''2000-1-1'')]]
     = Inr [(JStr ''unknown'',
             \<lparr>client_name = JStr ''Unknown'', client_email = [], client_phone = JStr [],
              invoices = [\<lparr>status = ''past_due'', id' = JNull, amount = JNull,
                           description = JNull, download_link = JNull, create_date = JNull,
                           due_date = JStr ''2000-1-1''\<rparr>]\<rparr>)]"
    by (simp add: loop_body_def client_fields_def classify_def due
        invoice_info_of_def add_invoice_def py_get_def py_join_def
        py_slice10_def py_strptime_def parse truthy_def dt_less_def dt_fields_def
        py_hashable_def dict_contains_def dict_append_def)
  from iso due loop show ?thesis by (intro conjI)
qed

text \<open>
  C3, amended. The invoice is dropped exactly when \<open>strptime(_, "%Y-%m-%d")\<close> rejects the
  first ten characters of its due date, and dropping it leaves the whole answer as if the
  invoice had not been sent. Every \<open>YYYY-MM-DD\<close> date of the years 1 to 9999 is accepted
  (and so are dates with a one-digit month or day). An accepted invoice, with a hashable
  client id and a dict (or no) \<open>url\<close>, is appended to its client's group with the full
  original string as \<open>due_date\<close>.
\<close>

theorem rejected_due_date_dropped:
  assumes "due_date_str invoice = Inr (JStr s)"
    and "client_fields invoice = Inr (cid, name, email, phone)"
  shows "((\<forall>d. strptime_ymd (take 10 s) \<noteq> Inr d) \<longrightarrow>
            loop_body now cl invoice = Inr cl
            \<and> (\<forall>pre post. get_grouped_invoices now (pre @ invoice # post)
                            = get_grouped_invoices now (pre @ post)))
       \<and> (iso_calendar_date (take 10 s) \<longrightarrow> (\<exists>d. strptime_ymd (take 10 s) = Inr d))
       \<and> ((\<exists>d. strptime_ymd (take 10 s) = Inr d) \<and> py_hashable cid
             \<and> (\<exists>u. py_get invoice ''url'' (JObj []) = Inr (JObj u)) \<longrightarrow>
            (\<exists>cl' g older info. loop_body now cl invoice = Inr cl'
                \<and> dict_lookup cl' cid = Some g \<and> invoices g = older @ [info]
                \<and> due_date info = JStr s))"
proof (intro conjI impI)
  assume rej: "\<forall>d. strptime_ymd (take 10 s) \<noteq> Inr d"
  then have none: "classify now invoice = Inr None"
    using classify_string[OF assms(1), of now] by (auto split: sum.splits)
  then show "loop_body now cl invoice = Inr cl"
    using assms(2) by (intro loop_body_dropped)
  have "loop_body now c invoice = Inr c" for c
    using assms(2) none by (intro loop_body_dropped)
  then show "\<forall>pre post. get_grouped_invoices now (pre @ invoice # post)
      = get_grouped_invoices now (pre @ post)"
    by (simp add: get_grouped_invoices_skip)
next
  assume "iso_calendar_date (take 10 s)"
  then show "\<exists>d. strptime_ymd (take 10 s) = Inr d"
    by (rule iso_calendar_date_accepted)
next
  assume ok: "(\<exists>d. strptime_ymd (take 10 s) = Inr d) \<and> py_hashable cid
             \<and> (\<exists>u. py_get invoice ''url'' (JObj []) = Inr (JObj u))"
  then obtain d u where d: "strptime_ymd (take 10 s) = Inr d"
    and hash: "py_hashable cid"
    and url: "py_get invoice ''url'' (JObj []) = Inr (JObj u)"
    by blast
  obtain info where info: "invoice_info_of invoice
      (if dt_less d now then ''past_due'' else ''to_be_paid'') (JStr s) = Inr info"
    using invoice_info_of_ok[OF url] by blast
  have cls: "classify now invoice = Inr (Some info)"
    using classify_string[OF assms(1), of now] d info by simp
  obtain cl' where cl': "add_invoice cl cid name email phone info = Inr cl'"
    using add_invoice_ok[OF hash] by blast
  have body: "loop_body now cl invoice = Inr cl'"
    using loop_body_kept[OF assms(2) cls] cl' by simp
  have "\<exists>g older. dict_lookup cl' cid = Some g \<and> invoices g = older @ [info]"
    using add_invoice_lookup[OF cl', of cid] by (auto split: option.splits)
  moreover have "due_date info = JStr s"
    using invoice_info_of_fields[OF info] by simp
  ultimately show "\<exists>cl' g older info. loop_body now cl invoice = Inr cl'
      \<and> dict_lookup cl' cid = Some g \<and> invoices g = older @ [info] \<and> due_date info = JStr s"
    using body by blast
qed

theorem rejected_due_date_dropped_witness:
  "loop_body \<lparr>year = 2025, month = 1, day = 1, hour = 0, minute = 0, second = 0,
              microsecond = 0\<rparr> [] (JObj [(''dueDate'', JStr ''01/02/2024'')]) = Inr []
   \<and> (\<exists>cl' g older info.
        loop_body \<lparr>year = 2025, month = 1, day = 1, hour = 0, minute = 0, second = 0,
                   microsecond = 0\<rparr> []
          (JObj [(''dueDate'', JStr ''2024-02-29T10:00:00'')]) = Inr cl'
        \<and> dict_lookup cl' (JStr ''unknown'') = Some g \<and> invoices g = older @ [info]
        \<and> due_date info = JStr ''2024-02-29T10:00:00'')"
proof -
  have due: "due_date_str (JObj [(''dueDate'', JStr s)]) = Inr (JStr s)" if "s \<noteq> []" for s
    using that by (simp add: due_date_str_def py_get_def truthy_def)
  have fields: "client_fields (JObj [(''dueDate'', JStr s)])
      = Inr (JStr ''unknown'', JStr ''Unknown'', [], JStr [])" for s
    by (simp add: client_fields_def py_get_def py_join_def)
  have url: "py_get (JObj [(''dueDate'', JStr s)]) ''url'' (JObj []) = Inr (JObj [])" for s
    by (simp add: py_get_def)
  have bad: "strptime_ymd (take 10 ''01/02/2024'') = Inl ValueError"
    by code_simp
  have good: "strptime_ymd (take 10 ''2024-02-29T10:00:00'')
      = Inr \<lparr>year = 2024, month = 2, day = 29, hour = 0, minute = 0, second = 0,
             microsecond = 0\<rparr>"
    by code_simp
  have hash: "py_hashable (JStr ''unknown'')"
    by (simp add: py_hashable_def)
  from rejected_due_date_dropped[OF due fields,
      of "''01/02/2024''" "\<lparr>year = 2025, month = 1, day = 1, hour = 0, minute = 0,
        second = 0, microsecond = 0\<rparr>" "[]"] bad
  have a: "loop_body \<lparr>year = 2025, month = 1, day = 1, hour = 0, minute = 0, second = 0,
              microsecond = 0\<rparr> [] (JObj [(''dueDate'', JStr ''01/02/2024'')]) = Inr []"
    by simp
  from rejected_due_date_dropped[OF due fields,
      of "''2024-02-29T10:00:00''" "\<lparr>year = 2025, month = 1, day = 1, hour = 0,
        minute = 0, second = 0, microsecond = 0\<rparr>" "[]"] good hash url
  have b: "\<exists>cl' g older info.
        loop_body \<lparr>year = 2025, month = 1, day = 1, hour = 0, minute = 0, second = 0,
                   microsecond = 0\<rparr> []
          (JObj [(''dueDate'', JStr ''2024-02-29T10:00:00'')]) = Inr cl'
        \<and> dict_lookup cl' (JStr ''unknown'') = Some g \<and> invoices g = older @ [info]
        \<and> due_date info = JStr ''2024-02-29T10:00:00''"
    by simp
  from a b show ?thesis by (rule conjI)
qed

section \<open>Grouping by client id\<close>

lemma kept_client_ids_Nil [simp]: "kept_client_ids now [] = []"
  by (simp add: kept_client_ids_def)

lemma kept_client_ids_dropped:
  "classify now x = Inr None \<Longrightarrow> kept_client_ids now (x # xs) = kept_client_ids now xs"
  by (simp add: kept_client_ids_def split: sum.splits prod.splits)

lemma kept_client_ids_kept:
  "client_fields x = Inr (cid, name, email, phone) \<Longrightarrow> classify now x = Inr (Some info)
     \<Longrightarrow> kept_client_ids now (x # xs) = cid # kept_client_ids now xs"
  by (simp add: kept_client_ids_def)

lemma loop_body_cases:
  assumes "loop_body now cl x = Inr cl'"
  obtains (dropped) c where "client_fields x = Inr c" "classify now x = Inr None" "cl' = cl"
  | (kept) cid name email phone info where
      "client_fields x = Inr (cid, name, email, phone)" "classify now x = Inr (Some info)"
      "add_invoice cl cid name email phone info = Inr cl'"
proof -
  from assms obtain cid name email phone c where
    fields: "client_fields x = Inr (cid, name, email, phone)"
    and cls: "classify now x = Inr c"
    and res: "(case c of None \<Rightarrow> Inr cl | Some info \<Rightarrow> add_invoice cl cid name email phone info)
        = Inr cl'"
    by (auto simp: loop_body_def then_res_eq_Inr)
  show thesis
  proof (cases c)
    case None
    with fields cls res show ?thesis by (intro dropped) simp_all
  next
    case (Some info)
    with fields cls res show ?thesis by (intro kept) simp_all
  qed
qed

lemma dict_contains_keys:
  "dict_contains cl k \<longleftrightarrow> (\<exists>k' \<in> set (map fst cl). key_eq k' k)"
  by (auto simp: dict_contains_def list_ex_iff)

lemma group_loop_keys:
  "group_loop now cl invs = Inr cl' \<Longrightarrow>
     map fst cl' = map fst cl
       @ first_seen (filter (\<lambda>k. \<not> dict_contains cl k) (kept_client_ids now invs))"
proof (induction invs arbitrary: cl)
  case Nil
  then show ?case by simp
next
  case (Cons x rest)
  from Cons.prems obtain cl1 where body: "loop_body now cl x = Inr cl1"
    and rest: "group_loop now cl1 rest = Inr cl'"
    by (auto simp: then_res_eq_Inr)
  note IH = Cons.IH[OF rest]
  from body show ?case
  proof (cases rule: loop_body_cases)
    case (dropped c)
    with IH show ?thesis by (simp add: kept_client_ids_dropped)
  next
    case (kept cid name email phone info)
    note keys = add_invoice_keys[OF kept(3)]
    show ?thesis
    proof (cases "dict_contains cl cid")
      case True
      then have "dict_contains cl1 k = dict_contains cl k" for k
        using keys by (simp add: dict_contains_keys)
      with IH keys True show ?thesis
        by (simp add: kept_client_ids_kept[OF kept(1,2)])
    next
      case False
      then have "dict_contains cl1 k \<longleftrightarrow> dict_contains cl k \<or> key_eq k cid" for k
        using keys by (auto simp: dict_contains_keys key_eq_sym[of cid k])
      then have "filter (\<lambda>k. \<not> dict_contains cl1 k) ks
          = filter (\<lambda>k'. \<not> key_eq k' cid) (filter (\<lambda>k. \<not> dict_contains cl k) ks)" for ks
        by (induction ks) auto
      with IH keys False show ?thesis
        by (simp add: kept_client_ids_kept[OF kept(1,2)])
    qed
  qed
qed

lemma first_seen_subset: "set (first_seen ks) \<subseteq> set ks"
  by (induction ks rule: first_seen.induct) auto

lemma first_seen_distinct: "distinct (map key_norm (first_seen ks))"
proof (induction ks rule: first_seen.induct)
  case 1
  then show ?case by simp
next
  case (2 k ks)
  have "key_norm k \<notin> key_norm ` set (first_seen (filter (\<lambda>k'. \<not> key_eq k' k) ks))"
    using first_seen_subset[of "filter (\<lambda>k'. \<not> key_eq k' k) ks"]
    by (auto simp: key_eq_def)
  with 2 show ?case by simp
qed

lemma loop_body_keeps_group:
  assumes "loop_body now cl x = Inr cl'" and "dict_lookup cl k = Some g"
  shows "\<exists>g'. dict_lookup cl' k = Some g' \<and> client_name g' = client_name g
           \<and> client_email g' = client_email g \<and> client_phone g' = client_phone g
           \<and> (\<exists>later. invoices g' = invoices g @ later)"
  using assms(1)
proof (cases rule: loop_body_cases)
  case (dropped c)
  with assms(2) show ?thesis by simp
next
  case (kept cid name email phone info)
  show ?thesis
  proof (cases "key_eq k cid")
    case True
    then have "dict_lookup cl cid = Some g"
      using assms(2) dict_lookup_cong[of k cid cl] by simp
    with True show ?thesis
      using add_invoice_lookup[OF kept(3), of k] by simp
  next
    case False
    with assms(2) show ?thesis
      using add_invoice_lookup[OF kept(3), of k] by simp
  qed
qed

lemma group_loop_keeps_group:
  "group_loop now cl invs = Inr cl' \<Longrightarrow> dict_lookup cl k = Some g \<Longrightarrow>
     \<exists>g'. dict_lookup cl' k = Some g' \<and> client_name g' = client_name g
        \<and> client_email g' = client_email g \<and> client_phone g' = client_phone g
        \<and> (\<exists>later. invoices g' = invoices g @ later)"
proof (induction invs arbitrary: cl g)
  case Nil
  then show ?case by simp
next
  case (Cons x rest)
  from Cons.prems(1) obtain cl1 where body: "loop_body now cl x = Inr cl1"
    and rest: "group_loop now cl1 rest = Inr cl'"
    by (auto simp: then_res_eq_Inr)
  from loop_body_keeps_group[OF body Cons.prems(2)] obtain g1 later1 where
    g1: "dict_lookup cl1 k = Some g1" "client_name g1 = client_name g"
      "client_email g1 = client_email g" "client_phone g1 = client_phone g"
      "invoices g1 = invoices g @ later1"
    by blast
  from Cons.IH[OF rest g1(1)] g1(2-) show ?case
    by auto
qed

lemma group_loop_Cons:
  "group_loop now cl (x # rest) = Inr cl' \<longleftrightarrow>
     (\<exists>cl1. loop_body now cl x = Inr cl1 \<and> group_loop now cl1 rest = Inr cl')"
  by (simp add: then_res_eq_Inr)

text \<open>
  C7. When a kept invoice is processed, the group of its client id ends the run with the
  name, email and phone of this invoice if the id was new, and with those the group
  already had if it was not, whatever this and the later invoices carry; the invoice's
  entry is appended to the group's invoices, and later ones only append after it.
\<close>

theorem client_metadata_kept_from_first_invoice:
  assumes "group_loop now cl (x # rest) = Inr cl'"
    and "client_fields x = Inr (cid, name, email, phone)"
    and "classify now x = Inr (Some info)"
  shows "\<exists>g'. dict_lookup cl' cid = Some g' \<and>
     (case dict_lookup cl cid of
        None \<Rightarrow> client_name g' = name \<and> client_email g' = email \<and> client_phone g' = phone
               \<and> (\<exists>later. invoices g' = info # later)
      | Some g \<Rightarrow> client_name g' = client_name g \<and> client_email g' = client_email g
               \<and> client_phone g' = client_phone g
               \<and> (\<exists>later. invoices g' = invoices g @ info # later))"
proof -
  from assms(1) obtain cl1 where body: "loop_body now cl x = Inr cl1"
    and rest: "group_loop now cl1 rest = Inr cl'"
    unfolding group_loop_Cons by blast
  have add: "add_invoice cl cid name email phone info = Inr cl1"
    using loop_body_kept[OF assms(2,3), of cl] body by simp
  define g1 where "g1 = (case dict_lookup cl cid of
      None \<Rightarrow> \<lparr>client_name = name, client_email = email, client_phone = phone,
               invoices = [info]\<rparr>
    | Some g \<Rightarrow> g\<lparr>invoices := invoices g @ [info]\<rparr>)"
  have g1: "dict_lookup cl1 cid = Some g1"
    using add_invoice_lookup[OF add, of cid] by (simp add: g1_def)
  from group_loop_keeps_group[OF rest g1] obtain g' later where
    g': "dict_lookup cl' cid = Some g'" "client_name g' = client_name g1"
      "client_email g' = client_email g1" "client_phone g' = client_phone g1"
      "invoices g' = invoices g1 @ later"
    by blast
  show ?thesis
    using g' by (auto simp: g1_def split: option.splits)
qed

theorem client_metadata_kept_from_first_invoice_witness:
  "\<exists>cl' g'. group_loop \<lparr>year = 2025, month = 1, day = 1, hour = 0, minute = 0, second = 0,
                          microsecond = 0\<rparr> []
               [JObj [(''client'', JObj [(''id'', JStr ''c1''), (''name'', JStr ''Acme'')]),
                      (''dueDate'', JStr ''2030-01-01'')],
                JObj [(''client'', JObj [(''id'', JStr ''c1''), (''name'', JStr ''Acme Ltd''),
                                         (''phone'', JStr ''555'')]),
                      (''dueDate'', JStr ''2020-01-01'')]] = Inr cl'
            \<and> dict_lookup cl' (JStr ''c1'') = Some g'
            \<and> client_name g' = JStr ''Acme'' \<and> client_email g' = []
            \<and> client_phone g' = JStr []
            \<and> (\<exists>later. invoices g'
                  = \<lparr>status = ''to_be_paid'', id' = JNull, amount = JNull,
                     description = JNull, download_link = JNull, create_date = JNull,
                     due_date = JStr ''2030-01-01''\<rparr> # later)"
proof -
  have loop: "group_loop \<lparr>year = 2025, month = 1, day = 1, hour = 0, minute = 0, second = 0,
                          microsecond = 0\<rparr> []
               (JObj [(''client'', JObj [(''id'', JStr ''c1''), (''name'', JStr ''Acme'')]),
                      (''dueDate'', JStr ''2030-01-01'')] #
                [JObj [(''client'', JObj [(''id'', JStr ''c1''), (''name'', JStr ''Acme Ltd''),
                                         (''phone'', JStr ''555'')]),
                      (''dueDate'', JStr ''2020-01-01'')]])
      = Inr [(JStr ''c1'',
              \<lparr>client_name = JStr ''Acme'', client_email = [], client_phone = JStr [],
               invoices =
                 [\<lparr>status = ''to_be_paid'', id' = JNull, amount = JNull,
                   description = JNull, download_link = JNull, create_date = JNull,
                   due_date = JStr ''2030-01-01''\<rparr>,
                  \<lparr>status = ''past_due'', id' = JNull, amount = JNull,
                   description = JNull, download_link = JNull, create_date = JNull,
                   due_date = JStr ''2020-01-01''\<rparr>]\<rparr>)]"
    by code_simp
  have fields: "client_fields
      (JObj [(''client'', JObj [(''id'', JStr ''c1''), (''name'', JStr ''Acme'')]),
             (''dueDate'', JStr ''2030-01-01'')])
      = Inr (JStr ''c1'', JStr ''Acme'', [], JStr [])"
    by code_simp
  have cls: "classify \<lparr>year = 2025, month = 1, day = 1, hour = 0, minute = 0, second = 0,
                        microsecond = 0\<rparr>
      (JObj [(''client'', JObj [(''id'', JStr ''c1''), (''name'', JStr ''Acme'')]),
             (''dueDate'', JStr ''2030-01-01'')])
      = Inr (Some \<lparr>status = ''to_be_paid'', id' = JNull, amount = JNull,
                   description = JNull, download_link = JNull, create_date = JNull,
                   due_date = JStr ''2030-01-01''\<rparr>)"
    by code_simp
  from client_metadata_kept_from_first_invoice[OF loop fields cls] loop
  show ?thesis by simp
qed

lemma add_invoice_holds:
  assumes "add_invoice cl cid name email phone info = Inr cl1"
  shows "\<exists>g1. dict_lookup cl1 cid = Some g1 \<and> info \<in> set (invoices g1)"
  using add_invoice_lookup[OF assms, of cid] by (auto split: option.splits)

lemma group_loop_holds_kept:
  "group_loop now cl invs = Inr cl' \<Longrightarrow> x \<in> set invs
     \<Longrightarrow> client_fields x = Inr (cid, name, email, phone)
     \<Longrightarrow> classify now x = Inr (Some info)
     \<Longrightarrow> \<exists>g. dict_lookup cl' cid = Some g \<and> info \<in> set (invoices g)"
proof (induction invs arbitrary: cl)
  case Nil
  then show ?case by simp
next
  case (Cons y rest)
  from Cons.prems(1) obtain cl1 where body: "loop_body now cl y = Inr cl1"
    and rest: "group_loop now cl1 rest = Inr cl'"
    unfolding group_loop_Cons by blast
  show ?case
  proof (cases "x = y")
    case True
    with body Cons.prems(3,4) have "add_invoice cl cid name email phone info = Inr cl1"
      by (simp add: loop_body_kept)
    then obtain g1 where g1: "dict_lookup cl1 cid = Some g1" "info \<in> set (invoices g1)"
      using add_invoice_holds by blast
    from group_loop_keeps_group[OF rest g1(1)] g1(2) show ?thesis
      by auto
  next
    case False
    with Cons.IH[OF rest] Cons.prems show ?thesis by simp
  qed
qed

lemma group_loop_fields:
  "group_loop now cl invs = Inr cl' \<Longrightarrow> x \<in> set invs \<Longrightarrow> \<exists>c. client_fields x = Inr c"
proof (induction invs arbitrary: cl)
  case Nil
  then show ?case by simp
next
  case (Cons y rest)
  from Cons.prems(1) obtain cl1 where body: "loop_body now cl y = Inr cl1"
    and rest: "group_loop now cl1 rest = Inr cl'"
    unfolding group_loop_Cons by blast
  show ?case
  proof (cases "x = y")
    case True
    with body show ?thesis
      by (auto simp: loop_body_def then_res_eq_Inr)
  next
    case False
    with Cons.IH[OF rest] Cons.prems show ?thesis by simp
  qed
qed

lemma client_fields_unknown:
  assumes "client_fields (JObj kvs) = Inr (cid, name, email, phone)"
    and "map_of kvs ''client'' = None
         \<or> (\<exists>c. map_of kvs ''client'' = Some (JObj c) \<and> map_of c ''id'' = None)"
  shows "cid = JStr ''unknown''"
  using assms by (auto simp: client_fields_def py_get_def then_res_eq_Inr)

lemma dict_lookup_filter:
  assumes "distinct (map key_norm (map fst cl))" and "dict_lookup cl (JStr u) = Some g"
  shows "filter (\<lambda>e. fst e = JStr u) cl = [(JStr u, g)]"
  using assms
proof (induction cl)
  case Nil
  then show ?case by simp
next
  case (Cons e cl)
  show ?case
  proof (cases "fst e = JStr u")
    case True
    then have "key_norm (JStr u) \<notin> key_norm ` fst ` set cl"
      using Cons.prems(1) by (auto simp: image_iff)
    then have "\<forall>e' \<in> set cl. fst e' \<noteq> JStr u"
      by (metis imageI)
    then have "filter (\<lambda>e. fst e = JStr u) cl = []"
      by (simp add: filter_empty_conv)
    with True Cons.prems(2) show ?thesis
      by (cases e) (simp add: dict_lookup_Cons)
  next
    case False
    with Cons show ?thesis
      by (simp add: dict_lookup_Cons)
  qed
qed

lemma group_loop_keys_fresh:
  assumes "group_loop now [] invs = Inr cl"
  shows "map fst cl = first_seen (kept_client_ids now invs)"
  using group_loop_keys[OF assms] by (simp add: dict_contains_def)

text \<open>
  C6. In a run that starts from the empty dict, every kept invoice with no \<open>client\<close>, or
  with a \<open>client\<close> that has no \<open>id\<close>, has its entry in the invoices of the group keyed
  \<open>"unknown"\<close>, and the dict holds exactly one entry with that key.
\<close>

theorem missing_client_id_grouped_as_unknown:
  assumes "group_loop now [] invs = Inr cl"
    and "JObj kvs \<in> set invs"
    and "map_of kvs ''client'' = None
         \<or> (\<exists>c. map_of kvs ''client'' = Some (JObj c) \<and> map_of c ''id'' = None)"
    and "classify now (JObj kvs) = Inr (Some info)"
  shows "\<exists>g. filter (\<lambda>e. fst e = JStr ''unknown'') cl = [(JStr ''unknown'', g)]
           \<and> info \<in> set (invoices g)"
proof -
  obtain cid name email phone where
    fields: "client_fields (JObj kvs) = Inr (cid, name, email, phone)"
    using group_loop_fields[OF assms(1,2)] by (metis prod_cases4)
  have cid: "cid = JStr ''unknown''"
    using fields assms(3) by (rule client_fields_unknown)
  obtain g where g: "dict_lookup cl (JStr ''unknown'') = Some g" "info \<in> set (invoices g)"
    using group_loop_holds_kept[OF assms(1,2) fields assms(4)] cid by blast
  have "distinct (map key_norm (map fst cl))"
    using group_loop_keys_fresh[OF assms(1)] first_seen_distinct by simp
  from dict_lookup_filter[OF this g(1)] g(2) show ?thesis
    by blast
qed

theorem missing_client_id_grouped_as_unknown_witness:
  "\<exists>cl g. group_loop \<lparr>year = 2025, month = 1, day = 1, hour = 0, minute = 0, second = 0,
                        microsecond = 0\<rparr> []
             [JObj [(''dueDate'', JStr ''2030-01-01'')],
              JObj [(''client'', JObj [(''name'', JStr ''Nameless'')]),
                    (''dueDate'', JStr ''2020-01-01'')]] = Inr cl
           \<and> filter (\<lambda>e. fst e = JStr ''unknown'') cl = [(JStr ''unknown'', g)]
           \<and> \<lparr>status = ''past_due'', id' = JNull, amount = JNull, description = JNull,
               download_link = JNull, create_date = JNull,
               due_date = JStr ''2020-01-01''\<rparr> \<in> set (invoices g)"
proof -
  have loop: "group_loop \<lparr>year = 2025, month = 1, day = 1, hour = 0, minute = 0, second = 0,
                        microsecond = 0\<rparr> []
             [JObj [(''dueDate'', JStr ''2030-01-01'')],
              JObj [(''client'', JObj [(''name'', JStr ''Nameless'')]),
                    (''dueDate'', JStr ''2020-01-01'')]]
      = Inr [(JStr ''unknown'',
              \<lparr>client_name = JStr ''Unknown'', client_email = [], client_phone = JStr [],
               invoices =
                 [\<lparr>status = ''to_be_paid'', id' = JNull, amount = JNull,
                   description = JNull, download_link = JNull, create_date = JNull,
                   due_date = JStr ''2030-01-01''\<rparr>,
                  \<lparr>status = ''past_due'', id' = JNull, amount = JNull,
                   description = JNull, download_link = JNull, create_date = JNull,
                   due_date = JStr ''2020-01-01''\<rparr>]\<rparr>)]"
    by code_simp
  have cls: "classify \<lparr>year = 2025, month = 1, day = 1, hour = 0, minute = 0, second = 0,
                        microsecond = 0\<rparr>
      (JObj [(''client'', JObj [(''name'', JStr ''Nameless'')]),
             (''dueDate'', JStr ''2020-01-01'')])
      = Inr (Some \<lparr>status = ''past_due'', id' = JNull, amount = JNull, description = JNull,
               download_link = JNull, create_date = JNull,
               due_date = JStr ''2020-01-01''\<rparr>)"
    by code_simp
  have mem: "JObj [(''client'', JObj [(''name'', JStr ''Nameless'')]),
                   (''dueDate'', JStr ''2020-01-01'')]
      \<in> set [JObj [(''dueDate'', JStr ''2030-01-01'')],
              JObj [(''client'', JObj [(''name'', JStr ''Nameless'')]),
                    (''dueDate'', JStr ''2020-01-01'')]]"
    by simp
  have no_id: "map_of [(''client'', JObj [(''name'', JStr ''Nameless'')]),
                       (''dueDate'', JStr ''2020-01-01'')] ''client'' = None
      \<or> (\<exists>c. map_of [(''client'', JObj [(''name'', JStr ''Nameless'')]),
                       (''dueDate'', JStr ''2020-01-01'')] ''client'' = Some (JObj c)
             \<and> map_of c ''id'' = None)"
    by simp
  from missing_client_id_grouped_as_unknown[OF loop mem no_id cls] loop
  show ?thesis by blast
qed

section \<open>The table\<close>

lemma max_invoices_Max:
  assumes "cl \<noteq> []"
  shows "max_invoices cl = Max (set (map (\<lambda>e. length (invoices (snd e))) cl))"
proof (cases cl)
  case Nil
  with assms show ?thesis by simp
next
  case (Cons a rest)
  have "fold max (map (\<lambda>e. length (invoices (snd e))) rest) (length (invoices (snd a)))
      = Max (set (length (invoices (snd a)) # map (\<lambda>e. length (invoices (snd e))) rest))"
    by (rule Max.set_eq_fold[symmetric])
  then show ?thesis
    using Cons by (simp add: max_invoices_def)
qed

lemma max_invoices_ge: "e \<in> set cl \<Longrightarrow> length (invoices (snd e)) \<le> max_invoices cl"
proof -
  assume e: "e \<in> set cl"
  then have "cl \<noteq> []" by auto
  then show ?thesis
    using e by (simp add: max_invoices_Max)
qed

lemma max_invoices_attained:
  assumes "cl \<noteq> []"
  shows "\<exists>e \<in> set cl. length (invoices (snd e)) = max_invoices cl"
proof -
  have "Max ((\<lambda>e. length (invoices (snd e))) ` set cl)
      \<in> (\<lambda>e. length (invoices (snd e))) ` set cl"
    using assms by (intro Max_in) simp_all
  then obtain e where "e \<in> set cl"
    and "length (invoices (snd e)) = Max ((\<lambda>e. length (invoices (snd e))) ` set cl)"
    by (auto simp only: image_iff)
  then show ?thesis
    using assms by (auto simp add: max_invoices_Max simp del: Max_in)
qed

lemma fold_extend: "fold (\<lambda>i acc. acc @ f i) xs acc = acc @ concat (map f xs)"
  by (induction xs arbitrary: acc) simp_all

lemma headers_concat:
  "headers cl = base_headers @ concat (map slot_headers [1 ..< max_invoices cl + 1])"
  by (simp add: headers_def fold_extend)

lemma length_slots: "length (concat (map slot_headers xs)) = 7 * length xs"
  by (induction xs) (simp_all add: slot_headers_def)

lemma length_headers: "length (headers cl) = 4 + 7 * max_invoices cl"
  by (simp add: headers_concat length_slots base_headers_def)

lemma length_cells: "length (concat (map invoice_cells vs)) = 7 * length vs"
  by (induction vs) (simp_all add: invoice_cells_def)

lemma row_of_layout:
  "row_of n e = [fst e, client_name (snd e), JStr (client_email (snd e)), client_phone (snd e)]
     @ concat (map invoice_cells (invoices (snd e)))
     @ replicate (n - (4 + 7 * length (invoices (snd e)))) (JStr [])"
  by (simp add: row_of_def Let_def fold_extend length_cells)

lemma invoice_cells_fields:
  "invoice_cells = (\<lambda>v. [JStr (status v), id' v, amount v, description v, download_link v,
                          create_date v, due_date v])"
  by (rule ext) (simp add: invoice_cells_def)

text \<open>
  C4. Every row is the four client fields, then for each of the client's invoices in
  stored order its status, id, amount, description, download link, create date and due
  date, then empty strings, seven for each invoice the client has
  fewer than \<open>max_invoices\<close>; so every row, like the header, has \<open>4 + 7 * max_invoices\<close>
  cells, where \<open>max_invoices\<close> is the largest invoice count of any group (no group has
  more, and one has exactly that many).
\<close>

theorem rows_padded_to_header_length:
  "snd (flatten cl)
     = map (\<lambda>e. [fst e, client_name (snd e), JStr (client_email (snd e)),
                  client_phone (snd e)]
                 @ concat (map (\<lambda>v. [JStr (status v), id' v, amount v, description v,
                                      download_link v, create_date v, due_date v])
                             (invoices (snd e)))
                 @ replicate (7 * (max_invoices cl - length (invoices (snd e)))) (JStr []))
           cl
   \<and> (\<forall>r \<in> set (snd (flatten cl)). length r = 4 + 7 * max_invoices cl)
   \<and> length (fst (flatten cl)) = 4 + 7 * max_invoices cl
   \<and> (\<forall>e \<in> set cl. length (invoices (snd e)) \<le> max_invoices cl)
   \<and> (cl \<noteq> [] \<longrightarrow> (\<exists>e \<in> set cl. length (invoices (snd e)) = max_invoices cl))"
proof (intro conjI)
  have pad: "length (headers cl) - (4 + 7 * length (invoices (snd e)))
      = 7 * (max_invoices cl - length (invoices (snd e)))" for e
    by (simp add: length_headers diff_mult_distrib2)
  show rows: "snd (flatten cl)
     = map (\<lambda>e. [fst e, client_name (snd e), JStr (client_email (snd e)),
                  client_phone (snd e)]
                 @ concat (map (\<lambda>v. [JStr (status v), id' v, amount v, description v,
                                      download_link v, create_date v, due_date v])
                             (invoices (snd e)))
                 @ replicate (7 * (max_invoices cl - length (invoices (snd e)))) (JStr []))
           cl"
    by (simp add: flatten_def row_of_layout pad invoice_cells_fields)
  show "\<forall>r \<in> set (snd (flatten cl)). length r = 4 + 7 * max_invoices cl"
  proof
    fix r assume "r \<in> set (snd (flatten cl))"
    then obtain e where e: "e \<in> set cl"
      and r: "r = [fst e, client_name (snd e), JStr (client_email (snd e)),
                  client_phone (snd e)]
                 @ concat (map (\<lambda>v. [JStr (status v), id' v, amount v, description v,
                                      download_link v, create_date v, due_date v])
                             (invoices (snd e)))
                 @ replicate (7 * (max_invoices cl - length (invoices (snd e)))) (JStr [])"
      unfolding rows by auto
    from max_invoices_ge[OF e] show "length r = 4 + 7 * max_invoices cl"
      by (simp add: r length_cells[unfolded invoice_cells_fields])
  qed
  show "length (fst (flatten cl)) = 4 + 7 * max_invoices cl"
    by (simp add: flatten_def length_headers)
  show "\<forall>e \<in> set cl. length (invoices (snd e)) \<le> max_invoices cl"
    by (simp add: max_invoices_ge)
  show "cl \<noteq> [] \<longrightarrow> (\<exists>e \<in> set cl. length (invoices (snd e)) = max_invoices cl)"
    by (simp add: max_invoices_attained)
qed

theorem rows_padded_to_header_length_witness:
  "snd (flatten
     [(JStr ''c1'', \<lparr>client_name = JStr ''Acme'', client_email = ''a@acme.test'',
                     client_phone = JStr ''555'',
                     invoices = [\<lparr>status = ''past_due'', id' = JStr ''i1'',
                                  amount = JInt 100, description = JStr ''Hosting'',
                                  download_link = JStr ''https://inv.test/i1'',
                                  create_date = JStr ''1999-12-01'',
                                  due_date = JStr ''2000-01-01''\<rparr>]\<rparr>),
      (JStr ''c2'', \<lparr>client_name = JStr ''Bolt'', client_email = [], client_phone = JStr [],
                     invoices = [\<lparr>status = ''to_be_paid'', id' = JStr ''i2'',
                                  amount = JInt 5, description = JStr ''Design'',
                                  download_link = JStr ''https://inv.test/i2'',
                                  create_date = JStr ''2029-12-01'',
                                  due_date = JStr ''2030-01-01T12:00:00''\<rparr>,
                                 \<lparr>status = ''past_due'', id' = JStr ''i3'',
                                  amount = JInt 7, description = JNull,
                                  download_link = JStr ''https://inv.test/i3'',
                                  create_date = JStr ''2000-12-01'',
                                  due_date = JStr ''2001-01-01''\<rparr>]\<rparr>)])
   = [[JStr ''c1'', JStr ''Acme'', JStr ''a@acme.test'', JStr ''555'',
       JStr ''past_due'', JStr ''i1'', JInt 100, JStr ''Hosting'',
       JStr ''https://inv.test/i1'', JStr ''1999-12-01'', JStr ''2000-01-01'',
       JStr [], JStr [], JStr [], JStr [], JStr [], JStr [], JStr []],
      [JStr ''c2'', JStr ''Bolt'', JStr [], JStr [],
       JStr ''to_be_paid'', JStr ''i2'', JInt 5, JStr ''Design'',
       JStr ''https://inv.test/i2'', JStr ''2029-12-01'', JStr ''2030-01-01T12:00:00'',
       JStr ''past_due'', JStr ''i3'', JInt 7, JNull,
       JStr ''https://inv.test/i3'', JStr ''2000-12-01'', JStr ''2001-01-01'']]"
proof -
  have m: "max_invoices
     [(JStr ''c1'', \<lparr>client_name = JStr ''Acme'', client_email = ''a@acme.test'',
                     client_phone = JStr ''555'',
                     invoices = [\<lparr>status = ''past_due'', id' = JStr ''i1'',
                                  amount = JInt 100, description = JStr ''Hosting'',
                                  download_link = JStr ''https://inv.test/i1'',
                                  create_date = JStr ''1999-12-01'',
                                  due_date = JStr ''2000-01-01''\<rparr>]\<rparr>),
      (JStr ''c2'', \<lparr>client_name = JStr ''Bolt'', client_email = [], client_phone = JStr [],
                     invoices = [\<lparr>status = ''to_be_paid'', id' = JStr ''i2'',
                                  amount = JInt 5, description = JStr ''Design'',
                                  download_link = JStr ''https://inv.test/i2'',
                                  create_date = JStr ''2029-12-01'',
                                  due_date = JStr ''2030-01-01T12:00:00''\<rparr>,
                                 \<lparr>status = ''past_due'', id' = JStr ''i3'',
                                  amount = JInt 7, description = JNull,
                                  download_link = JStr ''https://inv.test/i3'',
                                  create_date = JStr ''2000-12-01'',
                                  due_date = JStr ''2001-01-01''\<rparr>]\<rparr>)] = 2"
    by (simp add: max_invoices_def)
  have seven: "replicate 7 (JStr []) = [JStr [], JStr [], JStr [], JStr [], JStr [], JStr [],
      JStr []]"
    by (simp add: numeral_eq_Suc)
  from rows_padded_to_header_length[of
     "[(JStr ''c1'', \<lparr>client_name = JStr ''Acme'', client_email = ''a@acme.test'',
                     client_phone = JStr ''555'',
                     invoices = [\<lparr>status = ''past_due'', id' = JStr ''i1'',
                                  amount = JInt 100, description = JStr ''Hosting'',
                                  download_link = JStr ''https://inv.test/i1'',
                                  create_date = JStr ''1999-12-01'',
                                  due_date = JStr ''2000-01-01''\<rparr>]\<rparr>),
      (JStr ''c2'', \<lparr>client_name = JStr ''Bolt'', client_email = [], client_phone = JStr [],
                     invoices = [\<lparr>status = ''to_be_paid'', id' = JStr ''i2'',
                                  amount = JInt 5, description = JStr ''Design'',
                                  download_link = JStr ''https://inv.test/i2'',
                                  create_date = JStr ''2029-12-01'',
                                  due_date = JStr ''2030-01-01T12:00:00''\<rparr>,
                                 \<lparr>status = ''past_due'', id' = JStr ''i3'',
                                  amount = JInt 7, description = JNull,
                                  download_link = JStr ''https://inv.test/i3'',
                                  create_date = JStr ''2000-12-01'',
                                  due_date = JStr ''2001-01-01''\<rparr>]\<rparr>)]"]
  show ?thesis
    unfolding m by (simp add: seven)
qed




lemma hd_row_of: "hd (row_of n e) = fst e"
  by (simp add: row_of_layout)

text \<open>
  C8. The table is a function of the dict the loop built, read in insertion order: row
  \<open>k\<close> is made from the \<open>k\<close>-th group alone, and the first cells of the rows are the
  client ids of the kept invoices, each at its first occurrence, in input order.
\<close>

theorem rows_in_first_seen_order:
  assumes "get_grouped_invoices now invs = Inr (hdr, rows)"
  shows "\<exists>cl. group_loop now [] invs = Inr cl
           \<and> (hdr, rows) = flatten cl
           \<and> rows = map (row_of (length hdr)) cl
           \<and> map fst cl = first_seen (kept_client_ids now invs)
           \<and> map hd rows = first_seen (kept_client_ids now invs)"
proof -
  from assms obtain cl where loop: "group_loop now [] invs = Inr cl"
    and flat: "(hdr, rows) = flatten cl"
    by (auto simp: get_grouped_invoices_def then_res_eq_Inr)
  from flat have rows: "rows = map (row_of (length hdr)) cl"
    by (simp add: flatten_def)
  have keys: "map fst cl = first_seen (kept_client_ids now invs)"
    using loop by (rule group_loop_keys_fresh)
  have "map hd rows = map fst cl"
    by (simp add: rows hd_row_of)
  with loop flat rows keys show ?thesis
    by auto
qed

theorem rows_in_first_seen_order_witness:
  "\<exists>hdr rows. get_grouped_invoices \<lparr>year = 2025, month = 1, day = 1, hour = 0, minute = 0,
                                     second = 0, microsecond = 0\<rparr>
       [JObj [(''client'', JObj [(''id'', JStr ''c2'')]), (''dueDate'', JStr ''2030-01-01'')],
        JObj [(''client'', JObj [(''id'', JStr ''c1'')]), (''dueDate'', JStr ''2030-01-01'')],
        JObj [(''client'', JObj [(''id'', JStr ''c2'')]), (''dueDate'', JStr ''2030-01-01'')]]
       = Inr (hdr, rows)
     \<and> map hd rows = [JStr ''c2'', JStr ''c1'']"
proof -
  have run: "get_grouped_invoices \<lparr>year = 2025, month = 1, day = 1, hour = 0, minute = 0,
                                  second = 0, microsecond = 0\<rparr>
       [JObj [(''client'', JObj [(''id'', JStr ''c2'')]), (''dueDate'', JStr ''2030-01-01'')],
        JObj [(''client'', JObj [(''id'', JStr ''c1'')]), (''dueDate'', JStr ''2030-01-01'')],
        JObj [(''client'', JObj [(''id'', JStr ''c2'')]), (''dueDate'', JStr ''2030-01-01'')]]
     = Inr ([''client_id'', ''client_name'', ''client_email'', ''client_phone'',
             ''invoice1_status'', ''invoice1_id'', ''invoice1_amount'',
             ''invoice1_description'', ''invoice1_download_link'', ''invoice1_create_date'',
             ''invoice1_due_date'', ''invoice2_status'', ''invoice2_id'', ''invoice2_amount'',
             ''invoice2_description'', ''invoice2_download_link'', ''invoice2_create_date'',
             ''invoice2_due_date''],
            [[JStr ''c2'', JStr ''Unknown'', JStr [], JStr [],
              JStr ''to_be_paid'', JNull, JNull, JNull, JNull, JNull, JStr ''2030-01-01'',
              JStr ''to_be_paid'', JNull, JNull, JNull, JNull, JNull, JStr ''2030-01-01''],
             [JStr ''c1'', JStr ''Unknown'', JStr [], JStr [],
              JStr ''to_be_paid'', JNull, JNull, JNull, JNull, JNull, JStr ''2030-01-01'',
              JStr [], JStr [], JStr [], JStr [], JStr [], JStr [], JStr []]])"
    by code_simp
  have ids: "first_seen (kept_client_ids \<lparr>year = 2025, month = 1, day = 1, hour = 0,
                 minute = 0, second = 0, microsecond = 0\<rparr>
       [JObj [(''client'', JObj [(''id'', JStr ''c2'')]), (''dueDate'', JStr ''2030-01-01'')],
        JObj [(''client'', JObj [(''id'', JStr ''c1'')]), (''dueDate'', JStr ''2030-01-01'')],
        JObj [(''client'', JObj [(''id'', JStr ''c2'')]), (''dueDate'', JStr ''2030-01-01'')]])
     = [JStr ''c2'', JStr ''c1'']"
    by code_simp
  from rows_in_first_seen_order[OF run] have "map hd
       [[JStr ''c2'', JStr ''Unknown'', JStr [], JStr [],
         JStr ''to_be_paid'', JNull, JNull, JNull, JNull, JNull, JStr ''2030-01-01'',
         JStr ''to_be_paid'', JNull, JNull, JNull, JNull, JNull, JStr ''2030-01-01''],
        [JStr ''c1'', JStr ''Unknown'', JStr [], JStr [],
         JStr ''to_be_paid'', JNull, JNull, JNull, JNull, JNull, JStr ''2030-01-01'',
         JStr [], JStr [], JStr [], JStr [], JStr [], JStr [], JStr []]]
     = [JStr ''c2'', JStr ''c1'']"
    unfolding ids by blast
  with run show ?thesis by simp
qed

section \<open>A worked request\<close>

text \<open>
  C9. One invoice of client \<open>c1\<close> (named Acme, no emails, no phone), due 2000-01-01, read
  at any time of 1 January 2025: the loop builds the single group \<open>c1\<close>, and the table
  is the header of 11 columns and the one row
  \<open>c1, Acme, "", "", past_due, i1, 100, None, None, None, 2000-01-01\<close>.
\<close>

theorem scenario_one_past_due_invoice:
  "group_loop \<lparr>year = 2025, month = 1, day = 1, hour = h, minute = mi, second = s,
              microsecond = us\<rparr> []
     [JObj [(''client'', JObj [(''id'', JStr ''c1''), (''name'', JStr ''Acme'')]),
            (''dueDate'', JStr ''2000-01-01''), (''id'', JStr ''i1''),
            (''amount'', JInt 100)]]
   = Inr [(JStr ''c1'',
           \<lparr>client_name = JStr ''Acme'', client_email = [], client_phone = JStr [],
            invoices = [\<lparr>status = ''past_due'', id' = JStr ''i1'', amount = JInt 100,
                         description = JNull, download_link = JNull, create_date = JNull,
                         due_date = JStr ''2000-01-01''\<rparr>]\<rparr>)]
   \<and> get_grouped_invoices \<lparr>year = 2025, month = 1, day = 1, hour = h, minute = mi,
                           second = s, microsecond = us\<rparr>
     [JObj [(''client'', JObj [(''id'', JStr ''c1''), (''name'', JStr ''Acme'')]),
            (''dueDate'', JStr ''2000-01-01''), (''id'', JStr ''i1''),
            (''amount'', JInt 100)]]
   = Inr ([''client_id'', ''client_name'', ''client_email'', ''client_phone'',
           ''invoice1_status'', ''invoice1_id'', ''invoice1_amount'',
           ''invoice1_description'', ''invoice1_download_link'', ''invoice1_create_date'',
           ''invoice1_due_date''],
          [[JStr ''c1'', JStr ''Acme'', JStr [], JStr [], JStr ''past_due'', JStr ''i1'',
            JInt 100, JNull, JNull, JNull, JStr ''2000-01-01'']])"
proof -
  have parse: "strptime_ymd ''2000-01-01''
      = Inr \<lparr>year = 2000, month = 1, day = 1, hour = 0, minute = 0, second = 0,
             microsecond = 0\<rparr>"
    by code_simp
  have one: "str_nat (Suc 0) = ''1''"
    by code_simp
  have loop: "group_loop \<lparr>year = 2025, month = 1, day = 1, hour = h, minute = mi,
              second = s, microsecond = us\<rparr> []
     [JObj [(''client'', JObj [(''id'', JStr ''c1''), (''name'', JStr ''Acme'')]),
            (''dueDate'', JStr ''2000-01-01''), (''id'', JStr ''i1''),
            (''amount'', JInt 100)]]
   = Inr [(JStr ''c1'',
           \<lparr>client_name = JStr ''Acme'', client_email = [], client_phone = JStr [],
            invoices = [\<lparr>status = ''past_due'', id' = JStr ''i1'', amount = JInt 100,
                         description = JNull, download_link = JNull, create_date = JNull,
                         due_date = JStr ''2000-01-01''\<rparr>]\<rparr>)]"
    by (simp add: loop_body_def client_fields_def classify_def due_date_str_def
        invoice_info_of_def add_invoice_def then_res_def py_get_def py_join_def
        py_slice10_def py_strptime_def parse truthy_def dt_less_def dt_fields_def
        py_hashable_def dict_contains_def dict_append_def key_eq_def key_norm_def)
  show ?thesis
    unfolding get_grouped_invoices_def loop
    by (simp add: then_res_def flatten_def headers_def max_invoices_def base_headers_def
        slot_headers_def one row_of_def invoice_cells_def)
qed

end
